theory Spec2Isabelle
  imports Main "HOL-Library.AList"
begin

section \<open>The host object model\<close>

text \<open>
  The module is forty lines of Python that run inside the interpreter's own protocol for
  building classes and assigning attributes. The functions of the module are translated
  below line by line; the builtins they call (\<open>isinstance\<close>, \<open>callable\<close>, \<open>type\<close>,
  \<open>hash\<close>, \<open>hasattr\<close>, \<open>getattr\<close>, \<open>type.__new__\<close>, \<open>type.__setattr__\<close>) are
  modelled in this section, each as far as the module uses it.
\<close>

subsection \<open>Runtime types\<close>

text \<open>
  The runtime type of a member: a type of the interpreter, given by its \<open>__name__\<close>, or
  a class derived from another type. \<open>type(x) is t\<close> is equality on this datatype;
  \<open>isinstance\<close> follows the chain of parents.
\<close>

datatype pytype = Builtin string | Derived string pytype

fun type_name :: "pytype \<Rightarrow> string" where
  "type_name (Builtin n) = n"
| "type_name (Derived n p) = n"

fun issubtype :: "pytype \<Rightarrow> pytype \<Rightarrow> bool" where
  "issubtype (Builtin n) t = (Builtin n = t)"
| "issubtype (Derived n p) t = (Derived n p = t \<or> issubtype p t)"

text \<open>The types named in the module: \<open>function\<close> and \<open>method\<close> (line 1, the
  interpreter's \<open>FunctionType\<close> and \<open>MethodType\<close>), the three descriptor types of line 24
  and the class \<open>override\<close> itself.\<close>

definition function_type :: pytype where "function_type = Builtin ''function''"
definition method_type :: pytype where "method_type = Builtin ''method''"
definition classmethod_type :: pytype where "classmethod_type = Builtin ''classmethod''"
definition staticmethod_type :: pytype where "staticmethod_type = Builtin ''staticmethod''"
definition property_type :: pytype where "property_type = Builtin ''property''"
definition override_type :: pytype where "override_type = Builtin ''override''"

subsection \<open>Objects\<close>

text \<open>
  An object has an identity (\<open>is\<close> compares identities), a runtime type, the answer of
  \<open>callable\<close>, the answer of \<open>hash\<close> (\<open>None\<close> when the object is unhashable) and, for a
  \<open>classmethod\<close>, a \<open>staticmethod\<close> or a bound method, the function it holds. An
  instance of \<open>override\<close> is an object whose only storage is the slot \<open>__func__\<close>
  (line 20).
\<close>

datatype pyobj =
    Obj (oid: nat) (ty: pytype) (is_callable: bool) (hashv: "int option") (held: "pyobj option")
  | Marker override
and override =
    Override (wid: nat) (dunder_func: pyobj)

fun identity :: "pyobj \<Rightarrow> nat" where
  "identity (Obj i t c h f) = i"
| "identity (Marker w) = wid w"

text \<open>\<open>a is b\<close>.\<close>

definition is_same :: "pyobj \<Rightarrow> pyobj \<Rightarrow> bool" where
  "is_same a b = (identity a = identity b)"

text \<open>\<open>type(x)\<close>.\<close>

fun type_of :: "pyobj \<Rightarrow> pytype" where
  "type_of (Obj i t c h f) = t"
| "type_of (Marker w) = override_type"

text \<open>\<open>callable(x)\<close>: the class \<open>override\<close> defines no \<open>__call__\<close>.\<close>

fun callable :: "pyobj \<Rightarrow> bool" where
  "callable (Obj i t c h f) = c"
| "callable (Marker w) = False"

text \<open>\<open>isinstance(x, t)\<close> and \<open>isinstance(x, (t1, ..., tn))\<close>.\<close>

definition isinstance :: "pyobj \<Rightarrow> pytype \<Rightarrow> bool" where
  "isinstance x t = issubtype (type_of x) t"

definition isinstance_any :: "pyobj \<Rightarrow> pytype list \<Rightarrow> bool" where
  "isinstance_any x ts = list_ex (isinstance x) ts"

datatype error =
    ValueError string
  | OverrideError string
  | TypeError string
  | AttributeError string


text \<open>\<open>repr\<close> of a string that is an identifier: the string between single quotes.\<close>

definition repr :: "string \<Rightarrow> string" where
  "repr s = [CHR 0x27] @ s @ [CHR 0x27]"

text \<open>
  \<open>hash(x)\<close>. The hash of an \<open>override\<close> instance is its \<open>__hash__\<close> (lines 32-33),
  \<open>hash((self.__func__,))\<close>: the interpreter's hash of a tuple, a function \<open>tuple_hash\<close>
  of the hashes of the elements, taken as a parameter; hashing the tuple raises when an
  element is unhashable.
\<close>

fun py_hash :: "(int list \<Rightarrow> int) \<Rightarrow> pyobj \<Rightarrow> error + int"
and override_hash :: "(int list \<Rightarrow> int) \<Rightarrow> override \<Rightarrow> error + int" where
  "py_hash tuple_hash (Obj i t c h f) =
     (case h of
        None \<Rightarrow> Inl (TypeError (''unhashable type: '' @ repr (type_name t)))
      | Some v \<Rightarrow> Inr v)"
| "py_hash tuple_hash (Marker w) = override_hash tuple_hash w"
| "override_hash tuple_hash (Override i func) =
     (case py_hash tuple_hash func of
        Inl e \<Rightarrow> Inl e
      | Inr h \<Rightarrow> Inr (tuple_hash [h]))"

subsection \<open>Classes and attribute lookup\<close>

text \<open>
  A class has a name, its immediate bases in declared order (\<open>__bases__\<close>) and its own
  namespace (\<open>__dict__\<close>), a dictionary in insertion order: an association list whose
  keys are distinct.
\<close>

type_synonym namespace = "(string \<times> pyobj) list"

datatype pyclass = PyClass (cname: string) (cbases: "pyclass list") (cdict: namespace)

text \<open>
  The linearisation of a class (\<open>__mro__\<close>) is the interpreter's C3 merge of the
  linearisations of the bases and the list of bases: the next class is the head of the
  first sequence that occurs in the tail of no sequence; when there is none, the hierarchy
  is inconsistent.
\<close>

definition strip :: "pyclass \<Rightarrow> pyclass list list \<Rightarrow> pyclass list list" where
  "strip c seqs = map (\<lambda>t. if t \<noteq> [] \<and> hd t = c then tl t else t) seqs"

definition candidate :: "pyclass list list \<Rightarrow> pyclass option" where
  "candidate seqs =
     map_option hd (find (\<lambda>s. s \<noteq> [] \<and> list_all (\<lambda>t. hd s \<notin> set (tl t)) seqs) seqs)"

function merge :: "pyclass list list \<Rightarrow> pyclass list option" where
  "merge seqs =
     (if list_all (\<lambda>s. s = []) seqs then Some []
      else (case candidate seqs of
              None \<Rightarrow> None
            | Some c \<Rightarrow> map_option (Cons c) (merge (strip c seqs))))"
  by pat_completeness auto
termination
proof (relation "measure (\<lambda>seqs. sum_list (map length seqs))")
  show "wf (measure (\<lambda>seqs. sum_list (map length seqs)))" by simp
next
  fix seqs :: "pyclass list list" and c
  assume "candidate seqs = Some c"
  then obtain s where f: "find (\<lambda>s. s \<noteq> [] \<and> list_all (\<lambda>t. hd s \<notin> set (tl t)) seqs) seqs = Some s"
    and c: "hd s = c"
    by (auto simp: candidate_def)
  from f obtain i where "i < length seqs" "s = seqs ! i" "s \<noteq> []"
    unfolding find_Some_iff by blast
  then have s: "s \<in> set seqs" "s \<noteq> []" by simp_all
  have le: "sum_list (map length (strip c xs)) \<le> sum_list (map length xs)" for xs
    by (induction xs) (auto simp: strip_def)
  from s(1) have "sum_list (map length (strip c seqs)) < sum_list (map length seqs)"
  proof (induction seqs)
    case Nil
    then show ?case by simp
  next
    case (Cons t ts)
    show ?case
    proof (cases "t = s")
      case True
      have a: "length (tl s) + 1 = length s" using s(2) by (cases s) auto
      have e1: "sum_list (map length (strip c (t # ts))) =
                length (tl s) + sum_list (map length (strip c ts))"
        using True s c by (simp add: strip_def)
      have e2: "sum_list (map length (t # ts)) = length s + sum_list (map length ts)"
        using True by simp
      show ?thesis unfolding e1 e2 using a le [of ts] by linarith
    next
      case False
      with Cons have "sum_list (map length (strip c ts)) < sum_list (map length ts)" by simp
      moreover have "length (if t \<noteq> [] \<and> hd t = c then tl t else t) \<le> length t" by simp
      ultimately show ?thesis by (simp add: strip_def)
    qed
  qed
  then show "(strip c seqs, seqs) \<in> measure (\<lambda>seqs. sum_list (map length seqs))" by simp
qed

declare merge.simps [simp del]

fun mro :: "pyclass \<Rightarrow> pyclass list option" where
  "mro (PyClass n bs d) =
     (case those (map mro bs) of
        None \<Rightarrow> None
      | Some ms \<Rightarrow> map_option (Cons (PyClass n bs d)) (merge (ms @ [bs])))"

text \<open>
  Looking a name up in a linearisation searches its namespaces in order. What is found
  in the linearisation of the class itself is bound as attribute access on a class binds
  it: a \<open>classmethod\<close> gives a bound method, a \<open>staticmethod\<close> gives the function it
  holds, and a function, a property, a bound method or any other object here is returned
  as it is. The bound method is a fresh object in the interpreter; the module reads only
  its type, and the model gives it the identity of its descriptor. Descriptors written by
  a user are outside this model.
\<close>

fun lookup :: "pyclass list \<Rightarrow> string \<Rightarrow> pyobj option" where
  "lookup [] name = None"
| "lookup (c # cs) name =
     (case map_of (cdict c) name of Some v \<Rightarrow> Some v | None \<Rightarrow> lookup cs name)"

fun bind :: "pyobj \<Rightarrow> pyobj" where
  "bind (Marker w) = Marker w"
| "bind (Obj i t c h f) =
     (if issubtype t classmethod_type then Obj i method_type True h f
      else if issubtype t (Builtin ''classmethod_descriptor'')
      then Obj i (Builtin ''builtin_function_or_method'') True h f
      else if issubtype t staticmethod_type then (case f of Some g \<Rightarrow> g | None \<Rightarrow> Obj i t c h f)
      else Obj i t c h f)"


text \<open>
  The root class \<open>object\<close>. Its namespace lists the methods that every class inherits,
  each with the type the interpreter gives it; \<open>__class__\<close> and \<open>__doc__\<close>, which
  the metaclass answers by a data descriptor, are left out.
\<close>

definition builtin_obj :: "nat \<Rightarrow> string \<Rightarrow> pyobj" where
  "builtin_obj i t = Obj i (Builtin t) True (Some (int i)) None"

definition object_dict :: namespace where
  "object_dict =
     [(''__repr__'', builtin_obj 1 ''wrapper_descriptor''),
      (''__hash__'', builtin_obj 2 ''wrapper_descriptor''),
      (''__str__'', builtin_obj 3 ''wrapper_descriptor''),
      (''__getattribute__'', builtin_obj 4 ''wrapper_descriptor''),
      (''__setattr__'', builtin_obj 5 ''wrapper_descriptor''),
      (''__delattr__'', builtin_obj 6 ''wrapper_descriptor''),
      (''__lt__'', builtin_obj 7 ''wrapper_descriptor''),
      (''__le__'', builtin_obj 8 ''wrapper_descriptor''),
      (''__eq__'', builtin_obj 9 ''wrapper_descriptor''),
      (''__ne__'', builtin_obj 10 ''wrapper_descriptor''),
      (''__gt__'', builtin_obj 11 ''wrapper_descriptor''),
      (''__ge__'', builtin_obj 12 ''wrapper_descriptor''),
      (''__init__'', builtin_obj 13 ''wrapper_descriptor''),
      (''__new__'', builtin_obj 14 ''builtin_function_or_method''),
      (''__reduce_ex__'', builtin_obj 15 ''method_descriptor''),
      (''__reduce__'', builtin_obj 16 ''method_descriptor''),
      (''__subclasshook__'', builtin_obj 17 ''classmethod_descriptor''),
      (''__init_subclass__'', builtin_obj 18 ''classmethod_descriptor''),
      (''__format__'', builtin_obj 19 ''method_descriptor''),
      (''__sizeof__'', builtin_obj 20 ''method_descriptor''),
      (''__dir__'', builtin_obj 21 ''method_descriptor'')]"

definition object_class :: pyclass where
  "object_class = PyClass ''object'' [] object_dict"

text \<open>
  The metaclass \<open>type\<close> of Python 3.7, the interpreter of the module: the entries of
  its namespace that are no data descriptors, each with its type. A class is an instance
  of its metaclass, so a name that the linearisation of the class does not have is looked
  up in the linearisation of the metaclass, \<open>type\<close> and \<open>object\<close>, and bound to the
  class as to an instance: a slot wrapper gives a \<open>method-wrapper\<close>, a method descriptor
  or a class-method descriptor gives a builtin method. \<open>OverridesMeta\<close> and the
  metaclasses made by the factory add to \<open>type\<close> only \<open>__new__\<close> and
  \<open>__setattr__\<close>, which every class already finds in \<open>object\<close>; a metaclass with
  further names of its own, or with its own \<open>__getattribute__\<close>, is outside this model.
\<close>

definition type_dict :: namespace where
  "type_dict =
     [(''__repr__'', builtin_obj 31 ''wrapper_descriptor''),
      (''__call__'', builtin_obj 32 ''wrapper_descriptor''),
      (''__getattribute__'', builtin_obj 33 ''wrapper_descriptor''),
      (''__setattr__'', builtin_obj 34 ''wrapper_descriptor''),
      (''__delattr__'', builtin_obj 35 ''wrapper_descriptor''),
      (''__init__'', builtin_obj 36 ''wrapper_descriptor''),
      (''__new__'', builtin_obj 37 ''builtin_function_or_method''),
      (''mro'', builtin_obj 38 ''method_descriptor''),
      (''__subclasses__'', builtin_obj 39 ''method_descriptor''),
      (''__prepare__'', builtin_obj 40 ''classmethod_descriptor''),
      (''__instancecheck__'', builtin_obj 41 ''method_descriptor''),
      (''__subclasscheck__'', builtin_obj 42 ''method_descriptor''),
      (''__dir__'', builtin_obj 43 ''method_descriptor''),
      (''__sizeof__'', builtin_obj 44 ''method_descriptor'')]"

definition type_lookup :: "string \<Rightarrow> pyobj option" where
  "type_lookup name =
     (case map_of type_dict name of Some v \<Rightarrow> Some v | None \<Rightarrow> map_of object_dict name)"

fun bind_instance :: "pyobj \<Rightarrow> pyobj" where
  "bind_instance (Marker w) = Marker w"
| "bind_instance (Obj i t c h f) =
     (if t = Builtin ''wrapper_descriptor'' then Obj i (Builtin ''method-wrapper'') True h f
      else if t = Builtin ''method_descriptor'' \<or> t = Builtin ''classmethod_descriptor''
      then Obj i (Builtin ''builtin_function_or_method'') True h f
      else Obj i t c h f)"

text \<open>
  The names that the interpreter answers by a descriptor of its own, before it looks at the
  namespace of the class: the data descriptors of \<open>type\<close> (its getset and member
  descriptors, and \<open>__class__\<close>, which it inherits from \<open>object\<close>), and
  \<open>__weakref__\<close>, whose descriptor \<open>type.__new__\<close> puts into the namespace itself.
  What the getter of such a name returns for a class, and what its setter does to the
  class, depends on state of the type object that the model does not hold (its layout,
  its module, its metaclass, the characters of a string assigned to \<open>__name__\<close>, the
  classes of a tuple assigned to \<open>__bases__\<close>). The model takes the getters and the
  setters as a parameter: \<open>getter I b name\<close> is what reading \<open>name\<close> on the class
  \<open>b\<close> gives, \<open>None\<close> for an \<open>AttributeError\<close>, and \<open>setter I cls name value\<close> is
  the outcome of assigning to it. The names that interpreters later than that of the
  module add to \<open>type\<close> and to \<open>object\<close> (\<open>__annotations__\<close>, \<open>__or__\<close>,
  \<open>__ror__\<close>, \<open>__getstate__\<close>, \<open>__type_params__\<close>) are left to the parameter
  too, so that what is proved holds in those interpreters as well.
\<close>

record interpreter =
  getter :: "pyclass \<Rightarrow> string \<Rightarrow> pyobj option"
  setter :: "pyclass \<Rightarrow> string \<Rightarrow> pyobj \<Rightarrow> error + pyclass"

definition interpreter_names :: "string list" where
  "interpreter_names =
     [''__name__'', ''__qualname__'', ''__module__'', ''__doc__'', ''__bases__'', ''__mro__'',
      ''__base__'', ''__dict__'', ''__weakref__'', ''__class__'', ''__abstractmethods__'',
      ''__text_signature__'', ''__basicsize__'', ''__itemsize__'', ''__flags__'',
      ''__weakrefoffset__'', ''__dictoffset__'', ''__annotations__'', ''__or__'', ''__ror__'',
      ''__getstate__'', ''__type_params__'']"

text \<open>
  \<open>getattr(b, name)\<close> on a class, as \<open>type.__getattribute__\<close> answers it: a data
  descriptor of the metaclass first, then the linearisation of the class, then the other
  names of the metaclass. \<open>None\<close> is the \<open>AttributeError\<close> that \<open>hasattr\<close> turns into
  \<open>False\<close>.
\<close>

definition getattr :: "interpreter \<Rightarrow> pyclass \<Rightarrow> string \<Rightarrow> pyobj option" where
  "getattr I b name =
     (case mro b of
        None \<Rightarrow> None
      | Some ms \<Rightarrow>
          if name \<in> set interpreter_names then getter I b name
          else (case lookup ms name of
                  Some v \<Rightarrow> Some (bind v)
                | None \<Rightarrow> map_option bind_instance (type_lookup name)))"

definition hasattr :: "interpreter \<Rightarrow> pyclass \<Rightarrow> string \<Rightarrow> bool" where
  "hasattr I b name = (getattr I b name \<noteq> None)"

text \<open>
  \<open>type.__new__(mcls, name, bases, classdict)\<close>: the raw class. A class statement
  without bases has the single base \<open>object\<close>; the namespace is the class body (the
  entries the interpreter adds, \<open>__module__\<close>, \<open>__dict__\<close>, \<open>__weakref__\<close> and
  \<open>__doc__\<close>, are no \<open>override\<close> instances and are left out: their names are among
  those that the parameter answers); an inconsistent hierarchy is refused. The other
  refusals of \<open>type.__new__\<close> (a metaclass or layout conflict, a base that is no
  class, an entry \<open>__slots__\<close>, \<open>__qualname__\<close> or \<open>__classcell__\<close> of the
  body that the interpreter does not accept) are outside this model.
\<close>

definition type_new :: "string \<Rightarrow> pyclass list \<Rightarrow> namespace \<Rightarrow> error + pyclass" where
  "type_new name bases classdict =
     (let cls = PyClass name (if bases = [] then [object_class] else bases) classdict
      in case mro cls of
           None \<Rightarrow> Inl (TypeError ''Cannot create a consistent method resolution order (MRO)'')
         | Some ms \<Rightarrow> Inr cls)"

text \<open>
  \<open>type.__setattr__(cls, name, value)\<close>. The builtin class \<open>object\<close> takes no
  attribute. A name that the metaclass answers by a data descriptor goes to the setter of
  the descriptor, which renames the class, changes its bases or refuses. For every other
  name the entry in the namespace of the class is replaced where it stands, or added at the
  end.
\<close>

definition type_setattr ::
  "interpreter \<Rightarrow> pyclass \<Rightarrow> string \<Rightarrow> pyobj \<Rightarrow> error + pyclass" where
  "type_setattr I cls name value =
     (if cls = object_class
      then Inl (TypeError (''can'' @ [CHR 0x27] @ ''t set attributes of built-in/extension type '' @
                           repr ''object''))
      else if name \<in> set interpreter_names then setter I cls name value
      else Inr (PyClass (cname cls) (cbases cls) (AList.update name value (cdict cls))))"

section \<open>The decorator \<open>override\<close> (lines 4-33)\<close>

text \<open>
  \<open>override.__new__(cls, func)\<close>, lines 22-27, for \<open>cls = override\<close>; \<open>fresh\<close> is
  the identity of the object that \<open>object.__new__\<close> allocates.
\<close>

definition override_new :: "nat \<Rightarrow> pyobj \<Rightarrow> error + override" where
  "override_new fresh func =
     (if \<not> callable func \<and> \<not> isinstance_any func [classmethod_type, staticmethod_type, property_type]
      then Inl (ValueError ''value of func parameter must be callable'')
      else Inr (Override fresh func))"

text \<open>\<open>override.__eq__(self, other)\<close>, lines 29-30; \<open>None\<close> is \<open>NotImplemented\<close>.\<close>

fun override_eq :: "override \<Rightarrow> pyobj \<Rightarrow> bool option" where
  "override_eq self (Obj i t c h f) = None"
| "override_eq self (Marker other) = Some (is_same (dunder_func self) (dunder_func other))"

text \<open>
  The assignment \<open>self.__func__ = v\<close>, as line 26 makes it and as any holder of a
  wrapper can make it. \<open>__slots__ = "__func__",\<close> (line 20) gives the class the member
  descriptor \<open>__func__\<close>, and the class defines no \<open>__setattr__\<close>, so the assignment
  is the \<open>__set__\<close> of that descriptor: it stores the value in the slot of the same
  object.
\<close>

definition dunder_func_set :: "override \<Rightarrow> pyobj \<Rightarrow> override" where
  "dunder_func_set self v = Override (wid self) v"

section \<open>The metaclass \<open>OverridesMeta\<close> (lines 40-67)\<close>

text \<open>
  Lines 51-56, the \<open>for ... else\<close> over \<open>cls.__bases__\<close>: the attribute of the first
  base that has one, or \<open>None\<close> when the loop ends without \<open>break\<close>.
\<close>

fun first_base_attr :: "interpreter \<Rightarrow> pyclass list \<Rightarrow> string \<Rightarrow> pyobj option" where
  "first_base_attr I [] name = None"
| "first_base_attr I (b # bs) name =
     (if hasattr I b name then getattr I b name else first_base_attr I bs name)"

text \<open>Lines 58-60 (and 94-96): the kind of the member that a wrapper holds,
  \<open>value.__func__\<close>.\<close>

definition kind :: "pyobj \<Rightarrow> pytype" where
  "kind func =
     (if isinstance func staticmethod_type then function_type
      else if isinstance func classmethod_type then method_type
      else type_of func)"

text \<open>
  \<open>OverridesMeta.__setattr__(cls, name, value)\<close>, lines 49-67.
  \<open>isinstance(value, override)\<close> holds of the objects \<open>Marker w\<close> and of no other
  (classes derived from \<open>override\<close> are not modelled); \<open>super().__setattr__\<close> is
  \<open>type.__setattr__\<close> on the class.
\<close>

definition OverridesMeta_setattr ::
  "interpreter \<Rightarrow> pyclass \<Rightarrow> string \<Rightarrow> pyobj \<Rightarrow> error + pyclass" where
  "OverridesMeta_setattr I cls name value =
     (case value of
        Marker w \<Rightarrow>
          (case first_base_attr I (cbases cls) name of
             None \<Rightarrow>
               Inl (OverrideError (''no base of '' @ cname cls @ '' has attr '' @ repr name))
           | Some overriden \<Rightarrow>
               (if type_of overriden \<noteq> kind (dunder_func w)
                then Inl (OverrideError
                       (''attempt to override a '' @ type_name (type_of overriden) @
                        '' object with a '' @ type_name (type_of (dunder_func w)) @
                        '' object''))
                else type_setattr I cls name (dunder_func w)))
      | Obj i t c h f \<Rightarrow> type_setattr I cls name value)"

text \<open>
  Lines 44-46, the loop over \<open>cls.__dict__.items()\<close>. \<open>setattr(cls, key, value)\<close>
  runs the \<open>__setattr__\<close> of the metaclass of \<open>cls\<close>, which is \<open>mcls\<close>: the
  parameter \<open>mcls_setattr\<close>. An assignment replaces the value of a key that the loop
  has reached, so the items still to come are those of the raw class.
\<close>

fun scan :: "(pyclass \<Rightarrow> string \<Rightarrow> pyobj \<Rightarrow> error + pyclass) \<Rightarrow> pyclass \<Rightarrow> namespace
               \<Rightarrow> error + pyclass" where
  "scan mcls_setattr cls [] = Inr cls"
| "scan mcls_setattr cls ((key, Marker w) # items) =
     (case mcls_setattr cls key (Marker w) of
        Inl e \<Rightarrow> Inl e
      | Inr cls' \<Rightarrow> scan mcls_setattr cls' items)"
| "scan mcls_setattr cls ((key, Obj i t c h f) # items) = scan mcls_setattr cls items"

text \<open>\<open>OverridesMeta.__new__(mcls, name, bases, classdict)\<close>, lines 42-47.\<close>

definition OverridesMeta_new ::
  "(pyclass \<Rightarrow> string \<Rightarrow> pyobj \<Rightarrow> error + pyclass) \<Rightarrow> string \<Rightarrow> pyclass list \<Rightarrow> namespace
     \<Rightarrow> error + pyclass" where
  "OverridesMeta_new mcls_setattr name bases classdict =
     (case type_new name bases classdict of
        Inl e \<Rightarrow> Inl e
      | Inr cls \<Rightarrow> scan mcls_setattr cls (cdict cls))"

text \<open>
  A class statement whose metaclass is \<open>OverridesMeta\<close>, as under \<open>OverridesBase\<close>
  (lines 69-71): \<open>OverridesMeta(name, bases, classdict)\<close>. The result \<open>Inl e\<close> is the
  exception that leaves the class statement, so that the name of the class is not bound.
\<close>

definition OverridesMeta_call ::
  "interpreter \<Rightarrow> string \<Rightarrow> pyclass list \<Rightarrow> namespace \<Rightarrow> error + pyclass" where
  "OverridesMeta_call I name bases classdict =
     OverridesMeta_new (OverridesMeta_setattr I) name bases classdict"


section \<open>Custom metaclasses (lines 74-107)\<close>

text \<open>
  A metaclass, as far as the module uses one: its \<open>__name__\<close> and \<open>__doc__\<close>, its
  \<open>__new__\<close> and its \<open>__setattr__\<close>. \<open>__new__\<close> takes, for its first parameter
  \<open>mcls\<close>, the \<open>__setattr__\<close> that \<open>setattr\<close> runs on a class whose metaclass is
  \<open>mcls\<close>. \<open>__setattr__\<close> is the attribute read off the metaclass, a function of
  \<open>(cls, name, value)\<close>, applied to the positional arguments of a call; the module calls
  it with three arguments and with two.
\<close>

datatype pyarg = AClass pyclass | AStr string | AObj pyobj

record metaclass =
  dunder_name :: string
  dunder_doc :: "string option"
  dunder_new :: "(pyclass \<Rightarrow> string \<Rightarrow> pyobj \<Rightarrow> error + pyclass) \<Rightarrow> string \<Rightarrow> pyclass list
                   \<Rightarrow> namespace \<Rightarrow> error + pyclass"
  dunder_setattr :: "pyarg list \<Rightarrow> error + pyclass"

text \<open>\<open>setattr(cls, name, value)\<close> on a class whose metaclass is \<open>mcls\<close>, and the class
  statement \<open>mcls(name, bases, classdict)\<close>.\<close>

definition setattr :: "metaclass \<Rightarrow> pyclass \<Rightarrow> string \<Rightarrow> pyobj \<Rightarrow> error + pyclass" where
  "setattr mcls cls name value = dunder_setattr mcls [AClass cls, AStr name, AObj value]"

definition construct :: "metaclass \<Rightarrow> string \<Rightarrow> pyclass list \<Rightarrow> namespace \<Rightarrow> error + pyclass" where
  "construct mcls name bases classdict = dunder_new mcls (setattr mcls) name bases classdict"

text \<open>
  The slot wrapper \<open>type.__setattr__\<close>: it wants its receiver, a class, first, and
  refuses a string there.
\<close>

fun type_dunder_setattr :: "interpreter \<Rightarrow> pyarg list \<Rightarrow> error + pyclass" where
  "type_dunder_setattr I [AClass cls, AStr name, AObj value] = type_setattr I cls name value"
| "type_dunder_setattr I (AStr s # args) =
     Inl (TypeError (''descriptor '' @ repr ''__setattr__'' @ '' requires a '' @ repr ''type'' @
                     '' object but received a '' @ repr ''str''))"
| "type_dunder_setattr I args = Inl (TypeError ''expected 2 arguments'')"

definition type_metaclass :: "interpreter \<Rightarrow> metaclass" where
  "type_metaclass I =
     \<lparr>dunder_name = ''type'', dunder_doc = None,
      dunder_new = (\<lambda>mcls_setattr. type_new), dunder_setattr = type_dunder_setattr I\<rparr>"

text \<open>
  The function \<open>OverridesMeta.__setattr__\<close> of line 49, with its three parameters: a
  call that gives it two arguments leaves \<open>value\<close> unbound.
\<close>

fun OverridesMeta_dunder_setattr :: "interpreter \<Rightarrow> pyarg list \<Rightarrow> error + pyclass" where
  "OverridesMeta_dunder_setattr I [AClass cls, AStr name, AObj value] =
     OverridesMeta_setattr I cls name value"
| "OverridesMeta_dunder_setattr I args =
     Inl (TypeError (''__setattr__() missing 1 required positional argument: '' @ repr ''value''))"

definition OverridesMeta :: "interpreter \<Rightarrow> metaclass" where
  "OverridesMeta I =
     \<lparr>dunder_name = ''OverridesMeta'',
      dunder_doc = Some ''Metaclass to support usage of the override decorator'',
      dunder_new = OverridesMeta_new, dunder_setattr = OverridesMeta_dunder_setattr I\<rparr>"

text \<open>\<open>Meta.__setattr__(cls, name, value)\<close>, lines 85-103. Line 103 calls
  \<open>metaclass.__setattr__(name, value)\<close>.\<close>

definition Meta_setattr ::
  "interpreter \<Rightarrow> metaclass \<Rightarrow> pyclass \<Rightarrow> string \<Rightarrow> pyobj \<Rightarrow> error + pyclass" where
  "Meta_setattr I metaclass cls name value =
     (case value of
        Marker w \<Rightarrow>
          (case first_base_attr I (cbases cls) name of
             None \<Rightarrow>
               Inl (OverrideError (''no base of '' @ cname cls @ '' has attr '' @ repr name))
           | Some overriden \<Rightarrow>
               (if type_of overriden \<noteq> kind (dunder_func w)
                then Inl (OverrideError
                       (''attempt to override a '' @ type_name (type_of overriden) @
                        '' object with a '' @ type_name (type_of (dunder_func w)) @
                        '' object''))
                else dunder_setattr metaclass [AStr name, AObj (dunder_func w)]))
      | Obj i t c h f \<Rightarrow> dunder_setattr metaclass [AStr name, AObj value])"

fun Meta_dunder_setattr :: "interpreter \<Rightarrow> metaclass \<Rightarrow> pyarg list \<Rightarrow> error + pyclass" where
  "Meta_dunder_setattr I metaclass [AClass cls, AStr name, AObj value] =
     Meta_setattr I metaclass cls name value"
| "Meta_dunder_setattr I metaclass args =
     Inl (TypeError (''__setattr__() missing 1 required positional argument: '' @ repr ''value''))"

text \<open>\<open>Meta.__new__(mcls, name, bases, classdict)\<close>, lines 78-83.\<close>

definition Meta_new ::
  "metaclass \<Rightarrow> (pyclass \<Rightarrow> string \<Rightarrow> pyobj \<Rightarrow> error + pyclass) \<Rightarrow> string \<Rightarrow> pyclass list
     \<Rightarrow> namespace \<Rightarrow> error + pyclass" where
  "Meta_new metaclass mcls_setattr name bases classdict =
     (case dunder_new metaclass mcls_setattr name bases classdict of
        Inl e \<Rightarrow> Inl e
      | Inr cls \<Rightarrow> scan mcls_setattr cls (cdict cls))"

text \<open>\<open>create_custom_overrides_meta(mcls, *, name=None, doc=None)\<close>, lines 74-107; \<open>I\<close>
  is the interpreter in which the metaclass runs.\<close>

definition create_custom_overrides_meta ::
  "interpreter \<Rightarrow> metaclass \<Rightarrow> string option \<Rightarrow> string option \<Rightarrow> metaclass" where
  "create_custom_overrides_meta I mcls name doc =
     \<lparr>dunder_name = (case name of Some n \<Rightarrow> n | None \<Rightarrow> ''Overrides'' @ dunder_name mcls),
      dunder_doc = doc,
      dunder_new = Meta_new mcls,
      dunder_setattr = Meta_dunder_setattr I mcls\<rparr>"


section \<open>The classes of \<open>main\<close> (lines 69-71 and 117-141)\<close>

text \<open>
  The objects that a class body makes: a function defined by \<open>def\<close>, a \<open>classmethod\<close>,
  a \<open>staticmethod\<close> and a \<open>property\<close> made of a function, and the bound method
  \<open>method(f, type)\<close> of line 141. In the interpreter of the module (Python 3.7) the three
  descriptors are not callable.
\<close>

definition def_function :: "nat \<Rightarrow> pyobj" where
  "def_function i = Obj i function_type True (Some (int i)) None"

definition classmethod_of :: "nat \<Rightarrow> pyobj \<Rightarrow> pyobj" where
  "classmethod_of i f = Obj i classmethod_type False (Some (int i)) (Some f)"

definition staticmethod_of :: "nat \<Rightarrow> pyobj \<Rightarrow> pyobj" where
  "staticmethod_of i f = Obj i staticmethod_type False (Some (int i)) (Some f)"

definition property_of :: "nat \<Rightarrow> pyobj \<Rightarrow> pyobj" where
  "property_of i f = Obj i property_type False (Some (int i)) (Some f)"

definition method_of :: "nat \<Rightarrow> pyobj \<Rightarrow> pyobj" where
  "method_of i f = Obj i method_type True (Some (int i)) (Some f)"

text \<open>\<open>OverridesBase\<close> (lines 69-71), whose body is \<open>__slots__ = ()\<close>, and the class
  \<open>A\<close> of lines 118-141, after \<open>A.b = method(A.b, type)\<close>.\<close>

definition OverridesBase :: pyclass where
  "OverridesBase = PyClass ''OverridesBase'' [object_class]
     [(''__slots__'', Obj 100 (Builtin ''tuple'') False (Some 3527539) None)]"

definition class_A :: pyclass where
  "class_A = PyClass ''A'' [OverridesBase]
     [(''__init__'', def_function 101),
      (''b'', method_of 110 (def_function 102)),
      (''c'', def_function 103),
      (''d'', classmethod_of 111 (def_function 104)),
      (''e'', property_of 112 (def_function 105))]"

section \<open>A diamond of classes\<close>

text \<open>
  \<open>class R: def x(self): ...\<close>, \<open>class B1(R): pass\<close> and
  \<open>class B2(R): x = property(...)\<close>: \<open>B1\<close> inherits the function \<open>x\<close> of \<open>R\<close>,
  and \<open>B2\<close> defines \<open>x\<close> anew as a property.
\<close>

definition class_R :: pyclass where
  "class_R = PyClass ''R'' [object_class] [(''x'', def_function 401)]"

definition class_B1 :: pyclass where
  "class_B1 = PyClass ''B1'' [class_R] []"

definition class_B2 :: pyclass where
  "class_B2 = PyClass ''B2'' [class_R] [(''x'', property_of 402 (def_function 403))]"

section \<open>Notions used in the statements\<close>

text \<open>
  The Kind of a wrapped member in the words of the specification (4.2, step 2): a
  static-method wrapper is a Function, a class-method wrapper is a Class-Bound Method,
  and any other member has the Kind that is its runtime type. The Kinds Function and
  Class-Bound Method are the types \<open>function\<close> and \<open>method\<close> of the interpreter, the
  types of a \<open>def\<close> and of what a class-method reads as on its class.
\<close>

definition Kind :: "pyobj \<Rightarrow> pytype" where
  "Kind member =
     (if isinstance member staticmethod_type then function_type
      else if isinstance member classmethod_type then method_type
      else type_of member)"




fun marked :: "string \<times> pyobj \<Rightarrow> bool" where
  "marked (key, Obj i t c h f) = False"
| "marked (key, Marker w) = True"

text \<open>Every class of the interpreter has \<open>object\<close> in its linearisation.\<close>

definition inherits_object :: "pyclass \<Rightarrow> bool" where
  "inherits_object c = (case mro c of None \<Rightarrow> False | Some ms \<Rightarrow> object_class \<in> set ms)"

section \<open>The decorator: construction, equality, hash, mutability\<close>

text \<open>
  C9. Constructing the wrapper succeeds exactly when the argument is callable or is an
  instance of \<open>classmethod\<close>, \<open>staticmethod\<close> or \<open>property\<close>; then the wrapper holds
  the argument. For every other argument construction raises \<open>ValueError\<close> and there is
  no wrapper.
\<close>

theorem override_new_succeeds_iff:
  "override_new fresh func =
     (if callable func \<or> isinstance func classmethod_type \<or> isinstance func staticmethod_type
         \<or> isinstance func property_type
      then Inr (Override fresh func)
      else Inl (ValueError ''value of func parameter must be callable''))"
  by (simp add: override_new_def isinstance_any_def)

theorem override_new_succeeds_iff_witness:
  "override_new 10 (def_function 1) = Inr (Override 10 (def_function 1))
   \<and> override_new 10 (staticmethod_of 2 (def_function 1))
       = Inr (Override 10 (staticmethod_of 2 (def_function 1)))
   \<and> override_new 10 (Obj 3 (Derived ''cached_property'' property_type) False (Some 3) None)
       = Inr (Override 10 (Obj 3 (Derived ''cached_property'' property_type) False (Some 3) None))
   \<and> override_new 10 (Obj 4 (Builtin ''int'') False (Some 4) None)
       = Inl (ValueError ''value of func parameter must be callable'')
   \<and> override_new 11 (Marker (Override 10 (def_function 1)))
       = Inl (ValueError ''value of func parameter must be callable'')"
  using override_new_succeeds_iff [of 10 "def_function 1"]
        override_new_succeeds_iff [of 10 "staticmethod_of 2 (def_function 1)"]
        override_new_succeeds_iff
          [of 10 "Obj 3 (Derived ''cached_property'' property_type) False (Some 3) None"]
        override_new_succeeds_iff [of 10 "Obj 4 (Builtin ''int'') False (Some 4) None"]
        override_new_succeeds_iff [of 11 "Marker (Override 10 (def_function 1))"]
  by (simp add: def_function_def staticmethod_of_def isinstance_def classmethod_type_def
        staticmethod_type_def property_type_def override_type_def function_type_def)

text \<open>
  C8. Two wrappers constructed around the same member compare equal and have the same
  hash (the hash of the one-element tuple of the member, when the member is hashable);
  and any two wrappers compare equal exactly when the members they hold are the same
  object.
\<close>

theorem wrappers_of_one_member_equal:
  assumes "override_new i m = Inr w1" and "override_new j m = Inr w2"
  shows "override_eq w1 (Marker w2) = Some True
       \<and> override_hash tuple_hash w1 = override_hash tuple_hash w2
       \<and> (\<forall>h. py_hash tuple_hash m = Inr h \<longrightarrow>
              override_hash tuple_hash w1 = Inr (tuple_hash [h]))
       \<and> (\<forall>a b. (override_eq a (Marker b) = Some True) =
                   is_same (dunder_func a) (dunder_func b))"
  using assms by (auto simp: override_new_def is_same_def split: if_splits)

theorem wrappers_of_one_member_equal_witness:
  "override_new 10 (def_function 1) = Inr (Override 10 (def_function 1))
   \<and> override_new 11 (def_function 1) = Inr (Override 11 (def_function 1))
   \<and> override_eq (Override 10 (def_function 1)) (Marker (Override 11 (def_function 1))) = Some True
   \<and> override_hash sum_list (Override 10 (def_function 1)) = Inr 1
   \<and> override_hash sum_list (Override 11 (def_function 1)) = Inr 1"
proof -
  have a: "override_new 10 (def_function 1) = Inr (Override 10 (def_function 1))"
    by (simp add: override_new_def def_function_def)
  have b: "override_new 11 (def_function 1) = Inr (Override 11 (def_function 1))"
    by (simp add: override_new_def def_function_def)
  show ?thesis
    using wrappers_of_one_member_equal [OF a b, of sum_list] a b
    by (simp add: def_function_def)
qed

text \<open>
  C7, as the claim states it, fails: a wrapper is not immutable. The assignment
  \<open>w.__func__ = g\<close> to a wrapper of the function \<open>f\<close> leaves the same wrapper holding
  the function \<open>g\<close>.
\<close>

theorem slot_assignment_counterexample:
  "dunder_func_set (Override 10 (def_function 1)) (def_function 2) = Override 10 (def_function 2)
   \<and> wid (dunder_func_set (Override 10 (def_function 1)) (def_function 2))
       = wid (Override 10 (def_function 1))
   \<and> dunder_func (dunder_func_set (Override 10 (def_function 1)) (def_function 2))
       \<noteq> dunder_func (Override 10 (def_function 1))"
  by (simp add: dunder_func_set_def def_function_def)

text \<open>
  C7, amended. A wrapper holds the member it was constructed around in its slot
  \<open>__func__\<close>, and the slot is writable: after an assignment to \<open>__func__\<close> the same
  wrapper holds the assigned value.
\<close>

theorem wrapper_slot_is_writable:
  "(override_new fresh func = Inr w \<longrightarrow> dunder_func w = func \<and> wid w = fresh)
   \<and> dunder_func (dunder_func_set w v) = v
   \<and> wid (dunder_func_set w v) = wid w"
  by (auto simp: override_new_def dunder_func_set_def split: if_splits)

theorem wrapper_slot_is_writable_witness:
  "override_new 10 (def_function 1) = Inr (Override 10 (def_function 1))
   \<and> dunder_func (Override 10 (def_function 1)) = def_function 1
   \<and> dunder_func (dunder_func_set (Override 10 (def_function 1)) (def_function 2)) = def_function 2
   \<and> wid (dunder_func_set (Override 10 (def_function 1)) (def_function 2)) = 10"
proof -
  have a: "override_new 10 (def_function 1) = Inr (Override 10 (def_function 1))"
    by (simp add: override_new_def def_function_def)
  show ?thesis
    using wrapper_slot_is_writable
            [of 10 "def_function 1" "Override 10 (def_function 1)" "def_function 2"] a
    by simp
qed

section \<open>Lemmas on the scan of the class body\<close>

lemma Kind_kind: "Kind member = kind member"
  by (simp add: Kind_def kind_def)

lemma heap_class: "cbases cls \<noteq> [] \<Longrightarrow> cls \<noteq> object_class"
  by (auto simp: object_class_def)



lemma scan_unmarked:
  "list_all (\<lambda>kv. \<not> marked kv) items \<Longrightarrow> scan S cls items = Inr cls"
  by (induction S cls items rule: scan.induct) auto






lemma type_new_raw:
  "type_new name bases classdict = Inr raw \<Longrightarrow>
     raw = PyClass name (if bases = [] then [object_class] else bases) classdict"
  by (auto simp: type_new_def Let_def split: option.splits)









lemma eval_ordinary:
  "''__init__'' \<notin> set interpreter_names" "''c'' \<notin> set interpreter_names"
  "''d'' \<notin> set interpreter_names" "''e'' \<notin> set interpreter_names"
  by (simp_all add: interpreter_names_def)

text \<open>
  A name that only the metaclass has is found on every base, as the interpreter finds it:
  wrapping a function under \<open>__call__\<close> in a subclass of \<open>A\<close> is checked against the
  \<open>method-wrapper\<close> that \<open>type.__call__\<close> reads as on \<open>A\<close>.
\<close>

lemma metaclass_names_are_found:
  "getattr I class_A ''__call__'' = Some (Obj 32 (Builtin ''method-wrapper'') True (Some 32) None)"
  "getattr I class_A ''mro'' =
     Some (Obj 38 (Builtin ''builtin_function_or_method'') True (Some 38) None)"
  "getattr I class_A ''__name__'' = getter I class_A ''__name__''"
  "OverridesMeta_call I ''X'' [class_A] [(''__call__'', Marker (Override 200 (def_function 201)))]
     = Inl (OverrideError ''attempt to override a method-wrapper object with a function object'')"
  by code_simp+

section \<open>The construction hook\<close>









text \<open>
  C6. For a class body without a wrapped member, construction through \<open>OverridesMeta\<close> is
  the construction of the raw class by \<open>type.__new__\<close>, result or refusal. The
  assignment of a value that is no wrapper to an attribute of any class, built or not by
  the hook, hands the class, the name and the value as they are to \<open>type.__setattr__\<close>,
  and its outcome is that of \<open>type.__setattr__\<close>; for a class other than the builtin
  \<open>object\<close> and an ordinary name it succeeds, keeps the name and the bases of the
  class, and the namespace then maps the name to the value as it was given.
\<close>

theorem unmarked_pass_through:
  "((\<forall>key w. (key, Marker w) \<notin> set classdict) \<longrightarrow>
      OverridesMeta_call I name bases classdict = type_new name bases classdict)
   \<and> OverridesMeta_setattr I cls key (Obj i t c h f) = type_setattr I cls key (Obj i t c h f)
   \<and> (cls \<noteq> object_class \<and> key \<notin> set interpreter_names \<longrightarrow>
        (\<exists>cls'. OverridesMeta_setattr I cls key (Obj i t c h f) = Inr cls'
           \<and> cname cls' = cname cls \<and> cbases cls' = cbases cls
           \<and> map_of (cdict cls') = (map_of (cdict cls))(key \<mapsto> Obj i t c h f)))"
proof -
  have "OverridesMeta_call I name bases classdict = type_new name bases classdict"
    if no: "\<forall>key w. (key, Marker w) \<notin> set classdict"
  proof (cases "type_new name bases classdict")
    case (Inl e)
    then show ?thesis by (simp add: OverridesMeta_call_def OverridesMeta_new_def)
  next
    case (Inr raw)
    have "list_all (\<lambda>kv. \<not> marked kv) classdict"
      unfolding list_all_iff
    proof
      fix kv assume "kv \<in> set classdict"
      with no show "\<not> marked kv" by (cases kv rule: marked.cases) auto
    qed
    then have "scan (OverridesMeta_setattr I) raw classdict = Inr raw" by (rule scan_unmarked)
    then show ?thesis using Inr type_new_raw [OF Inr]
      by (simp add: OverridesMeta_call_def OverridesMeta_new_def)
  qed
  then show ?thesis
    by (simp add: OverridesMeta_setattr_def type_setattr_def update_conv')
qed

theorem unmarked_pass_through_witness:
  "\<forall>I. (\<forall>key w. (key, Marker w) \<notin> set [(''c'', def_function 301)])
     \<and> OverridesMeta_call I ''P'' [class_A] [(''c'', def_function 301)]
         = Inr (PyClass ''P'' [class_A] [(''c'', def_function 301)])
     \<and> PyClass ''P'' [class_A] [(''c'', def_function 301)] \<noteq> object_class
     \<and> ''c'' \<notin> set interpreter_names
     \<and> OverridesMeta_setattr I (PyClass ''P'' [class_A] [(''c'', def_function 301)]) ''c''
          (Obj 302 method_type True (Some 302) (Some (def_function 301)))
         = Inr (PyClass ''P'' [class_A]
                 [(''c'', Obj 302 method_type True (Some 302) (Some (def_function 301)))])"
proof (intro allI)
  fix I :: interpreter
  have no: "\<forall>key w. (key, Marker w) \<notin> set [(''c'', def_function 301)]"
    by (simp add: def_function_def)
  have raw: "type_new ''P'' [class_A] [(''c'', def_function 301)] =
      Inr (PyClass ''P'' [class_A] [(''c'', def_function 301)])"
    by code_simp
  have heap: "PyClass ''P'' [class_A] [(''c'', def_function 301)] \<noteq> object_class"
    by (rule heap_class) simp
  have upd: "type_setattr I (PyClass ''P'' [class_A] [(''c'', def_function 301)]) ''c''
        (Obj 302 method_type True (Some 302) (Some (def_function 301)))
       = Inr (PyClass ''P'' [class_A]
               [(''c'', Obj 302 method_type True (Some 302) (Some (def_function 301)))])"
    using heap by (simp add: type_setattr_def eval_ordinary)
  show "(\<forall>key w. (key, Marker w) \<notin> set [(''c'', def_function 301)])
     \<and> OverridesMeta_call I ''P'' [class_A] [(''c'', def_function 301)]
         = Inr (PyClass ''P'' [class_A] [(''c'', def_function 301)])
     \<and> PyClass ''P'' [class_A] [(''c'', def_function 301)] \<noteq> object_class
     \<and> ''c'' \<notin> set interpreter_names
     \<and> OverridesMeta_setattr I (PyClass ''P'' [class_A] [(''c'', def_function 301)]) ''c''
          (Obj 302 method_type True (Some 302) (Some (def_function 301)))
         = Inr (PyClass ''P'' [class_A]
                 [(''c'', Obj 302 method_type True (Some 302) (Some (def_function 301)))])"
    using unmarked_pass_through
            [of "[(''c'', def_function 301)]" I "''P''" "[class_A]"
                "PyClass ''P'' [class_A] [(''c'', def_function 301)]" "''c''"
                302 method_type True "Some 302" "Some (def_function 301)"]
          no raw upd heap eval_ordinary(2)
    by simp
qed

section \<open>The search of the bases\<close>

lemma lookup_None: "lookup ms key = None \<longleftrightarrow> (\<forall>c \<in> set ms. map_of (cdict c) key = None)"
  by (induction ms) (auto split: option.splits)

lemma first_base_attr_prefix:
  "\<forall>b \<in> set pre. \<not> hasattr I b key \<Longrightarrow> getattr I b key = Some overriden \<Longrightarrow>
     first_base_attr I (pre @ b # post) key = Some overriden"
  by (induction pre) (auto simp: hasattr_def)

lemma setattr_found:
  "first_base_attr I (cbases cls) key = Some overriden \<Longrightarrow>
   OverridesMeta_setattr I cls key (Marker w) =
     (if type_of overriden \<noteq> kind (dunder_func w)
      then Inl (OverrideError
                 (''attempt to override a '' @ type_name (type_of overriden) @
                  '' object with a '' @ type_name (type_of (dunder_func w)) @ '' object''))
      else type_setattr I cls key (dunder_func w))"
  by (simp add: OverridesMeta_setattr_def)

text \<open>
  C5. When two immediate bases \<open>B1\<close> and \<open>B2\<close> both expose the name, with members of
  different types, and no base before them has the name, the wrapped member is checked
  against the member of whichever of the two stands first in the declared order: against
  that of \<open>B1\<close> when \<open>B1\<close> comes first and against that of \<open>B2\<close> when the two are
  swapped, so that a member whose Kind is accepted in one order is refused in the other.
  A base exposes a name that it defines, inherits or gets from its metaclass. The search
  is over the immediate bases; the linearisation of the class plays no part in it.
\<close>

theorem first_matching_base_wins:
  assumes "getattr I B1 key = Some o1" and "getattr I B2 key = Some o2"
    and "type_of o1 \<noteq> type_of o2"
    and "\<forall>b \<in> set pre. \<not> hasattr I b key"
  shows "OverridesMeta_setattr I (PyClass n (pre @ B1 # mid @ B2 # post) d) key (Marker w) =
           (if type_of o1 \<noteq> Kind (dunder_func w)
            then Inl (OverrideError
                       (''attempt to override a '' @ type_name (type_of o1) @
                        '' object with a '' @ type_name (type_of (dunder_func w)) @ '' object''))
            else type_setattr I (PyClass n (pre @ B1 # mid @ B2 # post) d) key (dunder_func w))
       \<and> OverridesMeta_setattr I (PyClass n (pre @ B2 # mid @ B1 # post) d) key (Marker w) =
           (if type_of o2 \<noteq> Kind (dunder_func w)
            then Inl (OverrideError
                       (''attempt to override a '' @ type_name (type_of o2) @
                        '' object with a '' @ type_name (type_of (dunder_func w)) @ '' object''))
            else type_setattr I (PyClass n (pre @ B2 # mid @ B1 # post) d) key (dunder_func w))
       \<and> (type_of o1 = Kind (dunder_func w) \<longrightarrow> type_of o2 \<noteq> Kind (dunder_func w))"
proof -
  have a: "first_base_attr I (cbases (PyClass n (pre @ B1 # mid @ B2 # post) d)) key = Some o1"
    using assms(1,4) by (simp add: first_base_attr_prefix)
  have b: "first_base_attr I (cbases (PyClass n (pre @ B2 # mid @ B1 # post) d)) key = Some o2"
    using assms(2,4) by (simp add: first_base_attr_prefix)
  show ?thesis
    using setattr_found [OF a] setattr_found [OF b] assms(3) unfolding Kind_kind by auto
qed

theorem first_matching_base_wins_witness:
  "\<forall>I. getattr I class_B1 ''x'' = Some (def_function 401)
     \<and> getattr I class_B2 ''x'' = Some (property_of 402 (def_function 403))
     \<and> OverridesMeta_setattr I (PyClass ''C'' [class_B1, class_B2] []) ''x''
          (Marker (Override 404 (def_function 405)))
         = Inr (PyClass ''C'' [class_B1, class_B2] [(''x'', def_function 405)])
     \<and> OverridesMeta_setattr I (PyClass ''C'' [class_B2, class_B1] []) ''x''
          (Marker (Override 404 (def_function 405)))
         = Inl (OverrideError ''attempt to override a property object with a function object'')
     \<and> map_option (\<lambda>ms. lookup (tl ms) ''x'') (mro (PyClass ''C'' [class_B1, class_B2] []))
         = Some (Some (property_of 402 (def_function 403)))"
proof (intro allI)
  fix I :: interpreter
  have a: "getattr I class_B1 ''x'' = Some (def_function 401)" by code_simp
  have b: "getattr I class_B2 ''x'' = Some (property_of 402 (def_function 403))" by code_simp
  have d: "type_of (def_function 401) \<noteq> type_of (property_of 402 (def_function 403))"
    by code_simp
  have e: "\<forall>b \<in> set []. \<not> hasattr I b ''x''" by simp
  have k: "type_of (def_function 401) = Kind (dunder_func (Override 404 (def_function 405)))"
    "type_name (type_of (property_of 402 (def_function 403))) = ''property''"
    "type_name (type_of (dunder_func (Override 404 (def_function 405)))) = ''function''"
    by code_simp+
  have s: "type_setattr I (PyClass ''C'' [class_B1, class_B2] []) ''x''
        (dunder_func (Override 404 (def_function 405)))
      = Inr (PyClass ''C'' [class_B1, class_B2] [(''x'', def_function 405)])"
    by code_simp
  have m: "map_option (\<lambda>ms. lookup (tl ms) ''x'') (mro (PyClass ''C'' [class_B1, class_B2] []))
       = Some (Some (property_of 402 (def_function 403)))"
    by code_simp
  from first_matching_base_wins
         [OF a b d e, of "''C''" "[]" "[]" "[]" "Override 404 (def_function 405)"]
  show "getattr I class_B1 ''x'' = Some (def_function 401)
     \<and> getattr I class_B2 ''x'' = Some (property_of 402 (def_function 403))
     \<and> OverridesMeta_setattr I (PyClass ''C'' [class_B1, class_B2] []) ''x''
          (Marker (Override 404 (def_function 405)))
         = Inr (PyClass ''C'' [class_B1, class_B2] [(''x'', def_function 405)])
     \<and> OverridesMeta_setattr I (PyClass ''C'' [class_B2, class_B1] []) ''x''
          (Marker (Override 404 (def_function 405)))
         = Inl (OverrideError ''attempt to override a property object with a function object'')
     \<and> map_option (\<lambda>ms. lookup (tl ms) ''x'') (mro (PyClass ''C'' [class_B1, class_B2] []))
         = Some (Some (property_of 402 (def_function 403)))"
    using a b k s m by simp
qed

section \<open>Names of the root class\<close>

lemma candidate_Some:
  assumes "candidate seqs = Some c"
  shows "\<exists>s \<in> set seqs. s \<noteq> [] \<and> hd s = c"
proof -
  from assms obtain s where
    f: "find (\<lambda>s. s \<noteq> [] \<and> list_all (\<lambda>t. hd s \<notin> set (tl t)) seqs) seqs = Some s"
    and c: "hd s = c"
    by (auto simp: candidate_def)
  from f obtain i where "i < length seqs" "s = seqs ! i" "s \<noteq> []"
    unfolding find_Some_iff by blast
  then show ?thesis using c by auto
qed

lemma merge_set: "merge seqs = Some r \<Longrightarrow> set r = \<Union> (set ` set seqs)"
proof (induction seqs arbitrary: r rule: merge.induct)
  case (1 seqs)
  show ?case
  proof (cases "list_all (\<lambda>s. s = []) seqs")
    case True
    then show ?thesis using "1.prems" by (auto simp: merge.simps [of seqs] list_all_iff)
  next
    case False
    then obtain c r' where c: "candidate seqs = Some c" and r': "merge (strip c seqs) = Some r'"
      and r: "r = c # r'"
      using "1.prems" by (auto simp: merge.simps [of seqs] split: option.splits)
    have ih: "set r' = \<Union> (set ` set (strip c seqs))" using "1.IH" [OF False c r'] .
    from candidate_Some [OF c] obtain s where s: "s \<in> set seqs" "s \<noteq> []" "hd s = c"
      by blast
    have "insert c (\<Union> (set ` set (strip c seqs))) = \<Union> (set ` set seqs)"
    proof (intro equalityI subsetI)
      fix x assume "x \<in> insert c (\<Union> (set ` set (strip c seqs)))"
      then show "x \<in> \<Union> (set ` set seqs)"
        using s by (auto simp: strip_def split: if_splits dest: list.set_sel(2) hd_in_set)
    next
      fix x assume "x \<in> \<Union> (set ` set seqs)"
      then obtain t where t: "t \<in> set seqs" "x \<in> set t" by auto
      show "x \<in> insert c (\<Union> (set ` set (strip c seqs)))"
      proof (cases "t \<noteq> [] \<and> hd t = c")
        case True
        then have "x = c \<or> x \<in> set (tl t)" using t(2) by (cases t) auto
        moreover have "tl t \<in> set (strip c seqs)" using t(1) True by (force simp: strip_def)
        ultimately show ?thesis by auto
      next
        case False
        then have "t \<in> set (strip c seqs)" using t(1) by (force simp: strip_def)
        then show ?thesis using t(2) by auto
      qed
    qed
    then show ?thesis using r ih by simp
  qed
qed

lemma inherits_object_root: "inherits_object object_class"
  by (simp add: inherits_object_def object_class_def merge.simps)

lemma those_map:
  "those (map f xs) = Some ys \<Longrightarrow> x \<in> set xs \<Longrightarrow> \<exists>y. f x = Some y \<and> y \<in> set ys"
  by (induction xs arbitrary: ys) (auto split: option.splits)

text \<open>The classes that \<open>type.__new__\<close> builds from classes that have \<open>object\<close> in their
  linearisation have it too.\<close>

lemma type_new_inherits_object:
  assumes new: "type_new name bases classdict = Inr cls"
    and bases: "\<forall>b \<in> set bases. inherits_object b"
  shows "inherits_object cls"
proof -
  define bs where "bs = (if bases = [] then [object_class] else bases)"
  have cls: "cls = PyClass name bs classdict" using type_new_raw [OF new] by (simp add: bs_def)
  have bs: "bs \<noteq> []" "\<forall>b \<in> set bs. inherits_object b"
    using bases by (auto simp: bs_def inherits_object_root)
  from new obtain r where r: "mro (PyClass name bs classdict) = Some r"
    by (auto simp: type_new_def Let_def bs_def split: option.splits)
  then obtain ms r' where ms: "those (map mro bs) = Some ms"
    and r': "merge (ms @ [bs]) = Some r'" and rr: "r = PyClass name bs classdict # r'"
    by (auto split: option.splits)
  from bs obtain b where b: "b \<in> set bs" "inherits_object b" by (cases bs) auto
  from those_map [OF ms b(1)] obtain mb where mb: "mro b = Some mb" "mb \<in> set ms" by blast
  then have "object_class \<in> set mb" using b(2) by (simp add: inherits_object_def)
  then have "object_class \<in> set r'" using merge_set [OF r'] mb(2) by auto
  then show ?thesis using r rr cls by (simp add: inherits_object_def)
qed

text \<open>The names of the namespace of \<open>object\<close> are looked up in the linearisation of the
  class: the interpreter answers none of them itself.\<close>

lemma object_names_in_linearisation:
  assumes "key \<in> fst ` set (cdict object_class)"
  shows "key \<notin> set interpreter_names"
proof -
  have "\<forall>k \<in> set (map fst (cdict object_class)). k \<notin> set interpreter_names" by code_simp
  then show ?thesis using assms by auto
qed

text \<open>
  C10. The search tests a base with the full attribute lookup, so a name that the base
  only inherits is found. For a name of the namespace of \<open>object\<close> the first base of
  the class always has the attribute: the search stops there, the missing-attribute
  branch is not taken, by \<open>OverridesMeta.__setattr__\<close> or by the \<open>__setattr__\<close> of a
  metaclass made by the factory, and the outcome is decided by the comparison of the type
  of that inherited member with the kind of the wrapped member.
\<close>

theorem root_names_always_resolve:
  assumes bases: "cbases cls = b # bs"
    and root: "inherits_object b"
    and key: "key \<in> fst ` set (cdict object_class)"
  shows "\<exists>overriden. getattr I b key = Some overriden
           \<and> first_base_attr I (cbases cls) key = Some overriden
           \<and> OverridesMeta_setattr I cls key (Marker w) =
               (if type_of overriden \<noteq> kind (dunder_func w)
                then Inl (OverrideError
                           (''attempt to override a '' @ type_name (type_of overriden) @
                            '' object with a '' @ type_name (type_of (dunder_func w)) @ '' object''))
                else type_setattr I cls key (dunder_func w))
           \<and> Meta_setattr I M cls key (Marker w) =
               (if type_of overriden \<noteq> kind (dunder_func w)
                then Inl (OverrideError
                           (''attempt to override a '' @ type_name (type_of overriden) @
                            '' object with a '' @ type_name (type_of (dunder_func w)) @ '' object''))
                else dunder_setattr M [AStr key, AObj (dunder_func w)])
           \<and> OverridesMeta_setattr I cls key (Marker w) \<noteq>
               Inl (OverrideError (''no base of '' @ cname cls @ '' has attr '' @ repr key))"
proof -
  from root obtain ms where ms: "mro b = Some ms" "object_class \<in> set ms"
    by (auto simp: inherits_object_def split: option.splits)
  have heap: "cls \<noteq> object_class" using bases by (intro heap_class) simp
  have name: "key \<notin> set interpreter_names" using key by (rule object_names_in_linearisation)
  from key have "map_of (cdict object_class) key \<noteq> None"
    by (simp add: map_of_eq_None_iff)
  with ms(2) have "lookup ms key \<noteq> None" by (auto simp: lookup_None)
  then obtain v where "lookup ms key = Some v" by auto
  then have g: "getattr I b key = Some (bind v)" using ms(1) name by (simp add: getattr_def)
  then have f: "first_base_attr I (cbases cls) key = Some (bind v)"
    using bases by (simp add: hasattr_def)
  have "OverridesMeta_setattr I cls key (Marker w) \<noteq>
               Inl (OverrideError (''no base of '' @ cname cls @ '' has attr '' @ repr key))"
    using setattr_found [OF f] heap name by (simp add: type_setattr_def)
  moreover have "Meta_setattr I M cls key (Marker w) =
               (if type_of (bind v) \<noteq> kind (dunder_func w)
                then Inl (OverrideError
                           (''attempt to override a '' @ type_name (type_of (bind v)) @
                            '' object with a '' @ type_name (type_of (dunder_func w)) @ '' object''))
                else dunder_setattr M [AStr key, AObj (dunder_func w)])"
    using f by (simp add: Meta_setattr_def)
  ultimately show ?thesis using g f setattr_found [OF f] by blast
qed

theorem root_names_always_resolve_witness:
  "\<forall>I. inherits_object class_A
     \<and> ''__str__'' \<in> fst ` set (cdict object_class)
     \<and> getattr I class_A ''__str__'' = Some (builtin_obj 3 ''wrapper_descriptor'')
     \<and> OverridesMeta_setattr I (PyClass ''C'' [class_A] []) ''__str__''
          (Marker (Override 404 (def_function 405)))
         = Inl (OverrideError
                 ''attempt to override a wrapper_descriptor object with a function object'')"
proof (intro allI)
  fix I :: interpreter
  have bases: "cbases (PyClass ''C'' [class_A] []) = class_A # []" by simp
  have root: "inherits_object class_A" by code_simp
  have key: "''__str__'' \<in> fst ` set (cdict object_class)"
    by (simp add: object_class_def object_dict_def)
  have g: "getattr I class_A ''__str__'' = Some (builtin_obj 3 ''wrapper_descriptor'')"
    by code_simp
  have k: "type_of (builtin_obj 3 ''wrapper_descriptor'') \<noteq>
      kind (dunder_func (Override 404 (def_function 405)))"
    "type_name (type_of (builtin_obj 3 ''wrapper_descriptor'')) = ''wrapper_descriptor''"
    "type_name (type_of (dunder_func (Override 404 (def_function 405)))) = ''function''"
    by code_simp+
  from root_names_always_resolve
         [OF bases root key, of I "Override 404 (def_function 405)" "type_metaclass I"]
  show "inherits_object class_A
     \<and> ''__str__'' \<in> fst ` set (cdict object_class)
     \<and> getattr I class_A ''__str__'' = Some (builtin_obj 3 ''wrapper_descriptor'')
     \<and> OverridesMeta_setattr I (PyClass ''C'' [class_A] []) ''__str__''
          (Marker (Override 404 (def_function 405)))
         = Inl (OverrideError
                 ''attempt to override a wrapper_descriptor object with a function object'')"
    using root key g k by auto
qed

section \<open>The metaclass made by the factory\<close>

lemma setattr_OverridesMeta: "setattr (OverridesMeta I) = OverridesMeta_setattr I"
  by (intro ext) (simp add: setattr_def OverridesMeta_def)

lemma construct_OverridesMeta: "construct (OverridesMeta I) = OverridesMeta_call I"
  by (intro ext) (simp add: construct_def OverridesMeta_call_def setattr_OverridesMeta,
      simp add: OverridesMeta_def)

lemma Meta_setattr_two_arguments:
  "Meta_setattr I metaclass cls name (Obj i t c h f) =
     dunder_setattr metaclass [AStr name, AObj (Obj i t c h f)]"
  by (simp add: Meta_setattr_def)

text \<open>
  C1, on the code. With \<open>Meta = create_custom_overrides_meta(type)\<close>, the class
  \<open>A\<close> with the plain function \<open>c\<close> is built as \<open>type\<close> builds it. For the subclass
  \<open>B\<close> of \<open>A\<close> that wraps a function \<open>c\<close>, the wrapper validates and line 103 then
  calls \<open>type.__setattr__(name, value)\<close> without the class: construction raises
  \<open>TypeError\<close>, where \<open>OverridesMeta\<close> builds \<open>B\<close> with the bare function installed.
\<close>

theorem factory_reassignment_raises_TypeError:
  "dunder_name (create_custom_overrides_meta I (type_metaclass I) None None) = ''Overridestype''
   \<and> construct (create_custom_overrides_meta I (type_metaclass I) None None) ''A'' []
        [(''c'', def_function 103)]
       = Inr (PyClass ''A'' [object_class] [(''c'', def_function 103)])
   \<and> construct (create_custom_overrides_meta I (type_metaclass I) None None) ''B''
        [PyClass ''A'' [object_class] [(''c'', def_function 103)]]
        [(''c'', Marker (Override 202 (def_function 203)))]
       = Inl (TypeError (''descriptor '' @ repr ''__setattr__'' @ '' requires a '' @
                         repr ''type'' @ '' object but received a '' @ repr ''str''))
   \<and> construct (OverridesMeta I) ''B''
        [PyClass ''A'' [object_class] [(''c'', def_function 103)]]
        [(''c'', Marker (Override 202 (def_function 203)))]
       = Inr (PyClass ''B'' [PyClass ''A'' [object_class] [(''c'', def_function 103)]]
               [(''c'', def_function 203)])"
  by code_simp

end
